theory Spec2Isabelle
  imports Main "HOL-Library.Word"
begin

section \<open>JavaScript strings\<close>

text \<open>
  A JavaScript string is a sequence of UTF-16 code units. String literals of the source
  are ASCII and are embedded with \<open>lit\<close>.
\<close>

type_synonym jschar = "16 word"
type_synonym jsstring = "jschar list"

definition lit :: "string \<Rightarrow> jsstring" where
  "lit s = map of_char s"

text \<open>
  \<^verbatim>\<open>String.prototype.trim\<close> removes leading and trailing code units that are
  ECMAScript WhiteSpace or LineTerminator: TAB, LF, VT, FF, CR, SP, NBSP, U+1680,
  U+2000 to U+200A, U+2028, U+2029, U+202F, U+205F, U+3000 and U+FEFF.
\<close>

definition isWhiteSpace :: "jschar \<Rightarrow> bool" where
  "isWhiteSpace c =
     (c = 0x0009 \<or> c = 0x000A \<or> c = 0x000B \<or> c = 0x000C \<or> c = 0x000D \<or> c = 0x0020 \<or>
      c = 0x00A0 \<or> c = 0x1680 \<or> (0x2000 \<le> c \<and> c \<le> 0x200A) \<or>
      c = 0x2028 \<or> c = 0x2029 \<or> c = 0x202F \<or> c = 0x205F \<or> c = 0x3000 \<or> c = 0xFEFF)"

definition trim :: "jsstring \<Rightarrow> jsstring" where
  "trim s = rev (dropWhile isWhiteSpace (rev (dropWhile isWhiteSpace s)))"

text \<open>
  \<^verbatim>\<open>s.split(sep)\<close> for a separator of one code unit: the pieces between the
  occurrences of the separator, in order. \<^verbatim>\<open>pop()\<close> returns the last element of an
  array, \<^verbatim>\<open>undefined\<close> (here \<open>None\<close>) when the array is empty.
\<close>

fun split :: "jschar \<Rightarrow> jsstring \<Rightarrow> jsstring list" where
  "split sep [] = [[]]"
| "split sep (c # cs) =
     (if c = sep then [] # split sep cs
      else (case split sep cs of
              [] \<Rightarrow> [[c]]
            | piece # pieces \<Rightarrow> (c # piece) # pieces))"

definition pop :: "'a list \<Rightarrow> 'a option" where
  "pop xs = (if xs = [] then None else Some (last xs))"

text \<open>
  Number to string, for the integers the source renders in template literals
  (\<^verbatim>\<open>Date.now()\<close> and \<^verbatim>\<open>response.status\<close>): plain decimal digits, with a
  leading minus sign for a negative number.
\<close>

definition digit :: "nat \<Rightarrow> jschar" where
  "digit d = of_nat (48 + d)"

fun digits :: "nat \<Rightarrow> jsstring" where
  "digits n = (if n < 10 then [digit n] else digits (n div 10) @ [digit (n mod 10)])"

definition numberToString :: "int \<Rightarrow> jsstring" where
  "numberToString i = (if i < 0 then lit ''-'' @ digits (nat (- i)) else digits (nat i))"

text \<open>A value interpolated in a template literal; \<^verbatim>\<open>undefined\<close> prints as such.\<close>

definition interpolate :: "jsstring option \<Rightarrow> jsstring" where
  "interpolate v = (case v of None \<Rightarrow> lit ''undefined'' | Some s \<Rightarrow> s)"

section \<open>Data of the screen\<close>

text \<open>The interfaces \<^verbatim>\<open>Submission\<close> and \<^verbatim>\<open>ImagePickerResult\<close>.\<close>

record submission =
  sub_id :: jsstring
  sub_name :: jsstring
  sub_image_url :: jsstring
  sub_created_at :: "jsstring option"

record asset =
  uri :: jsstring
  width :: "nat option"
  height :: "nat option"
  fileName :: "jsstring option"
  fileSize :: "nat option"

record imagePickerResult =
  canceled :: bool
  assets :: "asset list option"

text \<open>
  A thrown value carries an optional \<^verbatim>\<open>message\<close>. An awaited promise either
  resolves to a value or rejects, which throws at the \<^verbatim>\<open>await\<close>.
\<close>

datatype js_error = JsError (message: "jsstring option")

datatype 'a awaited = Resolved 'a | Rejected js_error

record blob =
  blob_size :: nat

record response =
  ok :: bool
  status :: nat
  response_blob :: "blob awaited"

text \<open>
  The collaborators outside the screen: the clock, \<^verbatim>\<open>fetch\<close>, and the Supabase
  client (storage bucket and table). Each call is answered as a function of its arguments.
  The Supabase calls resolve to a pair of data and error, of which the source reads the
  error (and the data of the query).
\<close>

record services =
  date_now :: int
  fetch :: "jsstring \<Rightarrow> response awaited"
  storage_upload :: "jsstring \<Rightarrow> jsstring \<Rightarrow> blob \<Rightarrow> js_error option awaited"
  storage_getPublicUrl :: "jsstring \<Rightarrow> jsstring \<Rightarrow> jsstring"
  db_insert :: "jsstring \<Rightarrow> jsstring \<Rightarrow> jsstring \<Rightarrow> js_error option awaited"
  db_select :: "jsstring \<Rightarrow> jsstring \<Rightarrow> jsstring \<Rightarrow> bool
                 \<Rightarrow> (submission list option \<times> js_error option) awaited"

text \<open>What the screen does to the outside, in the order it does it.\<close>

datatype event =
    Alert jsstring jsstring
  | Console_error jsstring js_error
  | Fetch_call jsstring
  | Upload_call jsstring jsstring blob
  | GetPublicUrl_call jsstring jsstring
  | Insert_call jsstring jsstring jsstring
  | Select_call jsstring jsstring jsstring bool

fun is_upload :: "event \<Rightarrow> bool" where
  "is_upload (Upload_call bucket path b) = True"
| "is_upload e = False"

fun is_insert :: "event \<Rightarrow> bool" where
  "is_insert (Insert_call table nm url) = True"
| "is_insert e = False"

fun is_remote_call :: "event \<Rightarrow> bool" where
  "is_remote_call (Upload_call bucket path b) = True"
| "is_remote_call (GetPublicUrl_call bucket path) = True"
| "is_remote_call (Insert_call table nm url) = True"
| "is_remote_call (Select_call table columns column ascending) = True"
| "is_remote_call e = False"

text \<open>The state hooks of \<^verbatim>\<open>HomeScreen\<close>.\<close>

record homeScreen =
  name :: jsstring
  image_uri :: "jsstring option"
  uploading :: bool
  submissions :: "submission list"
  loadingSubmissions :: bool
  refreshing :: bool
  isConnected :: bool

definition initial :: homeScreen where
  "initial = \<lparr>name = [], image_uri = None, uploading = False, submissions = [],
     loadingSubmissions = False, refreshing = False, isConnected = True\<rparr>"

type_synonym run = "homeScreen \<times> event list"

section \<open>Operations\<close>

text \<open>\<^verbatim>\<open>error.message || fallback\<close>: a missing or empty message gives the fallback.\<close>

definition message_or :: "js_error \<Rightarrow> jsstring \<Rightarrow> jsstring" where
  "message_or e fallback =
     (case message e of
        None \<Rightarrow> fallback
      | Some m \<Rightarrow> if m = [] then fallback else m)"

subsection \<open>fetchSubmissions\<close>

text \<open>
  The part of \<^verbatim>\<open>fetchSubmissions\<close> that runs up to its \<^verbatim>\<open>await\<close> (the loading
  flag is set and the query is issued), and the part that runs once the query has settled.
\<close>

definition fetchSubmissions_issue :: "run \<Rightarrow> run" where
  "fetchSubmissions_issue r =
     (case r of (s, t) \<Rightarrow>
        (s\<lparr>loadingSubmissions := True\<rparr>,
         t @ [Select_call (lit ''form_submissions'') (lit ''*'') (lit ''created_at'') False]))"

definition fetchSubmissions_catch :: "js_error \<Rightarrow> event list" where
  "fetchSubmissions_catch e =
     [Console_error (lit ''Error fetching submissions:'') e,
      Alert (lit ''Error'') (message_or e (lit ''Failed to load submissions''))]"

definition fetchSubmissions_settle ::
    "(submission list option \<times> js_error option) awaited \<Rightarrow> run \<Rightarrow> run" where
  "fetchSubmissions_settle reply r =
     (case r of (s, t) \<Rightarrow>
        (case reply of
           Rejected e \<Rightarrow>
             (s\<lparr>loadingSubmissions := False\<rparr>, t @ fetchSubmissions_catch e)
         | Resolved (data, Some e) \<Rightarrow>
             (s\<lparr>loadingSubmissions := False\<rparr>, t @ fetchSubmissions_catch e)
         | Resolved (None, None) \<Rightarrow> (s\<lparr>loadingSubmissions := False\<rparr>, t)
         | Resolved (Some rows, None) \<Rightarrow>
             (s\<lparr>submissions := rows, loadingSubmissions := False\<rparr>, t)))"

definition fetchSubmissions :: "services \<Rightarrow> homeScreen \<Rightarrow> run" where
  "fetchSubmissions w s =
     fetchSubmissions_settle
       (db_select w (lit ''form_submissions'') (lit ''*'') (lit ''created_at'') False)
       (fetchSubmissions_issue (s, []))"

subsection \<open>pickImage\<close>

text \<open>
  The picker's promise is the argument. Reading \<^verbatim>\<open>result.assets[0].uri\<close> of an empty
  array throws a TypeError; a rejected promise throws its error.
\<close>

datatype thrown = Thrown js_error | TypeError

definition pickImage :: "imagePickerResult awaited \<Rightarrow> homeScreen \<Rightarrow> thrown option \<times> homeScreen" where
  "pickImage reply s =
     (case reply of
        Rejected e \<Rightarrow> (Some (Thrown e), s)
      | Resolved result \<Rightarrow>
         (if \<not> canceled result \<and> assets result \<noteq> None then
            (case the (assets result) of
               [] \<Rightarrow> (Some TypeError, s)
             | a # rest \<Rightarrow> (None, s\<lparr>image_uri := Some (uri a)\<rparr>))
          else (None, s)))"

subsection \<open>handleSubmit\<close>

text \<open>
  The \<^verbatim>\<open>try\<close> block, with the values of \<^verbatim>\<open>name\<close> and \<^verbatim>\<open>image\<close> that the
  handler has captured. The first component is the thrown error, if any; \<open>None\<close> is a
  normal end of the block or its early \<^verbatim>\<open>return\<close>.
\<close>

definition handleSubmit_try ::
    "services \<Rightarrow> jsstring \<Rightarrow> jsstring \<Rightarrow> run \<Rightarrow> js_error option \<times> run" where
  "handleSubmit_try w nm img r =
     (case r of (s, t) \<Rightarrow>
       (let fileExt = pop (split (of_char CHR ''.'') img);
            fileName = numberToString (date_now w) @ lit ''.'' @ interpolate fileExt;
            filePath = fileName;
            t1 = t @ [Fetch_call img]
        in (case fetch w img of
              Rejected e \<Rightarrow> (Some e, s, t1)
            | Resolved resp \<Rightarrow>
               (if \<not> ok resp then
                  (Some (JsError (Some (lit ''Failed to fetch image: '' @
                                        numberToString (int (status resp))))),
                   s, t1)
                else
                  (case response_blob resp of
                     Rejected e \<Rightarrow> (Some e, s, t1)
                   | Resolved b \<Rightarrow>
                      (if blob_size b > 5 * 1024 * 1024 then
                         (None, s\<lparr>uploading := False\<rparr>,
                          t1 @ [Alert (lit ''Error'') (lit ''Image size must be less than 5MB'')])
                       else
                         (let t2 = t1 @ [Upload_call (lit ''form_images'') filePath b]
                          in (case storage_upload w (lit ''form_images'') filePath b of
                                Rejected e \<Rightarrow> (Some e, s, t2)
                              | Resolved (Some uploadError) \<Rightarrow> (Some uploadError, s, t2)
                              | Resolved None \<Rightarrow>
                                 (let imageUrl =
                                        storage_getPublicUrl w (lit ''form_images'') filePath;
                                      t3 = t2 @
                                        [GetPublicUrl_call (lit ''form_images'') filePath,
                                         Insert_call (lit ''form_submissions'') nm imageUrl]
                                  in (case db_insert w (lit ''form_submissions'') nm imageUrl of
                                        Rejected e \<Rightarrow> (Some e, s, t3)
                                      | Resolved (Some error) \<Rightarrow> (Some error, s, t3)
                                      | Resolved None \<Rightarrow>
                                          (None,
                                           fetchSubmissions_issue
                                             (s\<lparr>name := [], image_uri := None\<rparr>,
                                              t3 @ [Alert (lit ''Success'')
                                                (lit ''Your information has been saved!'')]))))))))))))"

text \<open>
  The whole handler, up to the moment its own promise settles: the three validations, then
  the \<^verbatim>\<open>try\<close> block with its \<^verbatim>\<open>catch\<close> and \<^verbatim>\<open>finally\<close>. On success the
  call of \<^verbatim>\<open>fetchSubmissions\<close> is not awaited: its query is issued and still pending
  when the handler ends.
\<close>

definition handleSubmit_catch :: "js_error \<Rightarrow> event list" where
  "handleSubmit_catch e =
     [Console_error (lit ''Error submitting form:'') e,
      Alert (lit ''Error'') (message_or e (lit ''Something went wrong while submitting your form''))]"

definition handleSubmit :: "services \<Rightarrow> homeScreen \<Rightarrow> run" where
  "handleSubmit w s =
     (if trim (name s) = [] then
        (s, [Alert (lit ''Error'') (lit ''Please enter your name'')])
      else
        (case image_uri s of
           None \<Rightarrow> (s, [Alert (lit ''Error'') (lit ''Please select an image'')])
         | Some img \<Rightarrow>
            (if img = [] then (s, [Alert (lit ''Error'') (lit ''Please select an image'')])
             else if \<not> isConnected s then
               (s, [Alert (lit ''Error'')
                      (lit ''No network connection. Please try again later.'')])
             else
               (case handleSubmit_try w (name s) img (s\<lparr>uploading := True\<rparr>, []) of
                  (None, s', t) \<Rightarrow> (s'\<lparr>uploading := False\<rparr>, t)
                | (Some e, s', t) \<Rightarrow>
                    (s'\<lparr>uploading := False\<rparr>, t @ handleSubmit_catch e)))))"

section \<open>Example inputs\<close>

text \<open>
  The scenario of the specification: a clock at 1700000000000 ms, an image of 2 MB that
  can be read, a store and a table that accept every call; and variants of it.
\<close>

definition example_url :: "jsstring \<Rightarrow> jsstring \<Rightarrow> jsstring" where
  "example_url bucket path =
     lit ''https://project.supabase.co/storage/v1/object/public/'' @ bucket @ lit ''/'' @ path"

definition example_row :: submission where
  "example_row = \<lparr>sub_id = lit ''7'', sub_name = lit ''Bob'',
     sub_image_url = example_url (lit ''form_images'') (lit ''1690000000000.png''),
     sub_created_at = Some (lit ''2023-07-22T04:26:40Z'')\<rparr>"

definition example_services :: services where
  "example_services =
     \<lparr>date_now = 1700000000000,
      fetch = (\<lambda>u. Resolved \<lparr>ok = True, status = 200,
                               response_blob = Resolved \<lparr>blob_size = 2000000\<rparr>\<rparr>),
      storage_upload = (\<lambda>bucket path b. Resolved None),
      storage_getPublicUrl = example_url,
      db_insert = (\<lambda>table nm url. Resolved None),
      db_select = (\<lambda>table columns column ascending. Resolved (Some [example_row], None))\<rparr>"

definition example_draft :: "jsstring \<Rightarrow> homeScreen" where
  "example_draft nm = initial\<lparr>name := nm, image_uri := Some (lit ''file:///cache/photo.jpg'')\<rparr>"

definition example_error :: js_error where
  "example_error = JsError (Some (lit ''permission denied''))"

definition oversized_services :: services where
  "oversized_services = example_services
     \<lparr>fetch := (\<lambda>u. Resolved \<lparr>ok = True, status = 200,
                               response_blob = Resolved \<lparr>blob_size = 5242881\<rparr>\<rparr>)\<rparr>"

definition refusing_services :: services where
  "refusing_services = example_services
     \<lparr>db_insert := (\<lambda>table nm url. Resolved (Some example_error)),
      db_select := (\<lambda>table columns column ascending. Resolved (None, Some example_error))\<rparr>"

definition padded_name :: jsstring where
  "padded_name = lit '' Alice ''"

definition example_asset :: asset where
  "example_asset = \<lparr>uri = lit ''file:///cache/other.png'', width = Some 800, height = Some 600,
     fileName = None, fileSize = None\<rparr>"

definition dotless_draft :: homeScreen where
  "dotless_draft = initial\<lparr>name := lit ''Alice'',
     image_uri := Some (lit ''content://media/external/images/42'')\<rparr>"


section \<open>Facts about strings\<close>

lemma unat_of_char: "unat (of_char c :: jschar) = of_char c"
proof -
  have "(of_char c :: nat) < 256"
    by (rule nat_of_char_less_256)
  then have lt: "(of_char c :: nat) < 65536" by linarith
  have "(of_char c :: jschar) = of_nat (of_char c)"
    by (simp add: of_nat_of_char)
  then have "unat (of_char c :: jschar) = unat (of_nat (of_char c :: nat) :: jschar)"
    by simp
  also have "\<dots> = of_char c"
    using lt by (simp add: unat_of_nat)
  finally show ?thesis .
qed

lemma of_char_jschar_eq_iff [simp]: "(of_char a :: jschar) = of_char b \<longleftrightarrow> a = b"
proof
  assume "(of_char a :: jschar) = of_char b"
  then have "unat (of_char a :: jschar) = unat (of_char b :: jschar)" by simp
  then have "(of_char a :: nat) = of_char b" by (simp only: unat_of_char)
  then show "a = b" by simp
qed simp

lemma lit_eq_iff [simp]: "lit a = lit b \<longleftrightarrow> a = b"
proof -
  have "inj (of_char :: char \<Rightarrow> jschar)"
    by (rule injI) simp
  then show ?thesis
    unfolding lit_def by (simp add: inj_map_eq_map)
qed

lemma lit_Nil_iff [simp]: "lit a = [] \<longleftrightarrow> a = []"
  by (simp add: lit_def)

text \<open>A string trims to the empty string exactly when it is empty or all whitespace.\<close>

lemma trim_Nil_iff: "trim s = [] \<longleftrightarrow> (\<forall>c\<in>set s. isWhiteSpace c)"
proof
  assume "trim s = []"
  then have all: "\<forall>c\<in>set (dropWhile isWhiteSpace s). isWhiteSpace c"
    by (simp add: trim_def)
  show "\<forall>c\<in>set s. isWhiteSpace c"
  proof (cases "dropWhile isWhiteSpace s")
    case Nil
    then show ?thesis by simp
  next
    case (Cons y ys)
    then have "\<not> isWhiteSpace y"
      by (simp add: dropWhile_eq_Cons_conv)
    with all Cons show ?thesis by simp
  qed
next
  assume "\<forall>c\<in>set s. isWhiteSpace c"
  then show "trim s = []"
    by (auto simp: trim_def dest: set_dropWhileD)
qed


text \<open>\<open>split\<close> never returns the empty array, so \<open>pop\<close> of it is always a string.\<close>

lemma split_not_Nil: "split sep s \<noteq> []"
  by (induction s) (auto split: list.splits)

lemma pop_split: "pop (split sep s) = Some (last (split sep s))"
  by (simp add: pop_def split_not_Nil)

lemma split_no_sep: "sep \<notin> set s \<Longrightarrow> split sep s = [s]"
  by (induction s) auto

lemma split_at_sep: "split sep (a @ sep # b) = split sep a @ split sep b"
proof (induction a)
  case Nil
  show ?case by simp
next
  case (Cons c a)
  obtain p ps where "split sep a = p # ps"
    using split_not_Nil [of sep a] by (cases "split sep a") auto
  with Cons show ?case by simp
qed

text \<open>
  The last piece is what follows the last separator, and the whole string when there is
  no separator.
\<close>

lemma last_split:
  "(sep \<notin> set s \<and> last (split sep s) = s) \<or>
   (\<exists>pre ext. s = pre @ sep # ext \<and> sep \<notin> set ext \<and> last (split sep s) = ext)"
proof (cases "sep \<in> set s")
  case False
  then show ?thesis by (simp add: split_no_sep)
next
  case True
  then obtain pre ext where s: "s = pre @ sep # ext" and ext: "sep \<notin> set ext"
    using split_list_last by fastforce
  have "last (split sep s) = last (split sep ext)"
    unfolding s split_at_sep using split_not_Nil by simp
  with s ext show ?thesis
    by (auto simp: split_no_sep)
qed

section \<open>The example inputs, evaluated\<close>

lemma example_key:
  "numberToString 1700000000000 @ lit ''.'' @
     interpolate (pop (split (of_char CHR ''.'') (lit ''file:///cache/photo.jpg''))) =
   lit ''1700000000000.jpg''"
  by (simp add: numberToString_def lit_def digit_def pop_def interpolate_def)

lemma example_trim:
  "trim (lit ''Alice'') = lit ''Alice''" "trim (lit '' Alice '') = lit ''Alice''"
  "trim (lit ''  '') = []"
  by (simp_all add: trim_def lit_def isWhiteSpace_def)

lemma example_run:
  assumes "trim nm \<noteq> []"
  shows "handleSubmit example_services (example_draft nm) =
    ((example_draft nm)\<lparr>name := [], image_uri := None, loadingSubmissions := True\<rparr>,
     [Fetch_call (lit ''file:///cache/photo.jpg''),
      Upload_call (lit ''form_images'') (lit ''1700000000000.jpg'') \<lparr>blob_size = 2000000\<rparr>,
      GetPublicUrl_call (lit ''form_images'') (lit ''1700000000000.jpg''),
      Insert_call (lit ''form_submissions'') nm
        (example_url (lit ''form_images'') (lit ''1700000000000.jpg'')),
      Alert (lit ''Success'') (lit ''Your information has been saved!''),
      Select_call (lit ''form_submissions'') (lit ''*'') (lit ''created_at'') False])"
proof -
  have k: "numberToString (date_now example_services) @ lit ''.'' @
     interpolate (pop (split (of_char CHR ''.'') (lit ''file:///cache/photo.jpg''))) =
   lit ''1700000000000.jpg''"
    using example_key by (simp add: example_services_def)
  have "handleSubmit_try example_services nm (lit ''file:///cache/photo.jpg'')
          ((example_draft nm)\<lparr>uploading := True\<rparr>, []) =
        (None,
         (example_draft nm)\<lparr>uploading := True, name := [], image_uri := None,
            loadingSubmissions := True\<rparr>,
         [Fetch_call (lit ''file:///cache/photo.jpg''),
          Upload_call (lit ''form_images'') (lit ''1700000000000.jpg'') \<lparr>blob_size = 2000000\<rparr>,
          GetPublicUrl_call (lit ''form_images'') (lit ''1700000000000.jpg''),
          Insert_call (lit ''form_submissions'') nm
            (example_url (lit ''form_images'') (lit ''1700000000000.jpg'')),
          Alert (lit ''Success'') (lit ''Your information has been saved!''),
          Select_call (lit ''form_submissions'') (lit ''*'') (lit ''created_at'') False])"
    unfolding handleSubmit_try_def Let_def k
    by (simp add: example_services_def fetchSubmissions_issue_def)
  then show ?thesis
    using assms
    by (simp add: handleSubmit_def example_draft_def initial_def)
qed

lemma refused_run:
  assumes "trim nm \<noteq> []"
  shows "handleSubmit refusing_services (example_draft nm) =
    (example_draft nm,
     [Fetch_call (lit ''file:///cache/photo.jpg''),
      Upload_call (lit ''form_images'') (lit ''1700000000000.jpg'') \<lparr>blob_size = 2000000\<rparr>,
      GetPublicUrl_call (lit ''form_images'') (lit ''1700000000000.jpg''),
      Insert_call (lit ''form_submissions'') nm
        (example_url (lit ''form_images'') (lit ''1700000000000.jpg'')),
      Console_error (lit ''Error submitting form:'') example_error,
      Alert (lit ''Error'') (lit ''permission denied'')])"
proof -
  have k: "numberToString (date_now refusing_services) @ lit ''.'' @
     interpolate (pop (split (of_char CHR ''.'') (lit ''file:///cache/photo.jpg''))) =
   lit ''1700000000000.jpg''"
    using example_key by (simp add: refusing_services_def example_services_def)
  have "handleSubmit_try refusing_services nm (lit ''file:///cache/photo.jpg'')
          ((example_draft nm)\<lparr>uploading := True\<rparr>, []) =
        (Some example_error, (example_draft nm)\<lparr>uploading := True\<rparr>,
         [Fetch_call (lit ''file:///cache/photo.jpg''),
          Upload_call (lit ''form_images'') (lit ''1700000000000.jpg'') \<lparr>blob_size = 2000000\<rparr>,
          GetPublicUrl_call (lit ''form_images'') (lit ''1700000000000.jpg''),
          Insert_call (lit ''form_submissions'') nm
            (example_url (lit ''form_images'') (lit ''1700000000000.jpg''))])"
    unfolding handleSubmit_try_def Let_def k
    by (simp add: refusing_services_def example_services_def)
  then show ?thesis
    using assms
    by (simp add: handleSubmit_def example_draft_def initial_def handleSubmit_catch_def
          message_or_def example_error_def)
qed

section \<open>Shared facts about the calls of handleSubmit\<close>

text \<open>
  Where an upload appears in the trace of \<open>handleSubmit\<close>, and where an insert does.
\<close>

lemma handleSubmit_Upload_call:
  assumes "handleSubmit w s = (s', t)" and "Upload_call bucket path b \<in> set t"
  shows "\<exists>img. image_uri s = Some img \<and> bucket = lit ''form_images'' \<and>
           path = numberToString (date_now w) @ lit ''.'' @ last (split (of_char CHR ''.'') img) \<and>
           (\<forall>bucket' path'. GetPublicUrl_call bucket' path' \<in> set t \<longrightarrow>
              bucket' = bucket \<and> path' = path) \<and>
           (storage_upload w bucket path b = Resolved None \<longrightarrow>
              GetPublicUrl_call bucket path \<in> set t)"
  using assms
  by (auto simp: handleSubmit_def handleSubmit_try_def Let_def fetchSubmissions_issue_def
          handleSubmit_catch_def pop_split interpolate_def
        split: option.splits if_splits awaited.splits prod.splits)

lemma handleSubmit_Insert_call:
  assumes "handleSubmit w s = (s', t)" and "Insert_call table nm url \<in> set t"
  shows "nm = name s \<and> trim (name s) \<noteq> [] \<and> table = lit ''form_submissions'' \<and>
         (\<exists>bucket path b. Upload_call bucket path b \<in> set t \<and>
            storage_upload w bucket path b = Resolved None \<and>
            GetPublicUrl_call bucket path \<in> set t \<and>
            url = storage_getPublicUrl w bucket path)"
  using assms
  by (auto simp: handleSubmit_def handleSubmit_try_def Let_def fetchSubmissions_issue_def
          handleSubmit_catch_def
        split: option.splits if_splits awaited.splits prod.splits)

lemma fetchSubmissions_settle_frame:
  "name (fst (fetchSubmissions_settle reply (s, t))) = name s \<and>
   image_uri (fst (fetchSubmissions_settle reply (s, t))) = image_uri s \<and>
   uploading (fst (fetchSubmissions_settle reply (s, t))) = uploading s"
  by (auto simp: fetchSubmissions_settle_def split: awaited.splits option.splits prod.splits)

text \<open>
  The run of \<open>handleSubmit\<close> in which every step succeeds, for any services and draft.
\<close>

lemma handleSubmit_success_run:
  assumes "trim (name s) \<noteq> []" and "image_uri s = Some img" and "img \<noteq> []"
    and "isConnected s"
    and "fetch w img = Resolved resp" and "ok resp"
    and "response_blob resp = Resolved b" and "blob_size b \<le> 5242880"
    and "path = numberToString (date_now w) @ lit ''.'' @ last (split (of_char CHR ''.'') img)"
    and "storage_upload w (lit ''form_images'') path b = Resolved None"
    and "db_insert w (lit ''form_submissions'') (name s)
           (storage_getPublicUrl w (lit ''form_images'') path) = Resolved None"
  shows "handleSubmit w s =
    (s\<lparr>name := [], image_uri := None, uploading := False, loadingSubmissions := True\<rparr>,
     [Fetch_call img,
      Upload_call (lit ''form_images'') path b,
      GetPublicUrl_call (lit ''form_images'') path,
      Insert_call (lit ''form_submissions'') (name s)
        (storage_getPublicUrl w (lit ''form_images'') path),
      Alert (lit ''Success'') (lit ''Your information has been saved!''),
      Select_call (lit ''form_submissions'') (lit ''*'') (lit ''created_at'') False])"
proof -
  have k: "numberToString (date_now w) @ lit ''.'' @
      interpolate (pop (split (of_char CHR ''.'') img)) = path"
    using assms(9) by (simp add: pop_split interpolate_def)
  have "handleSubmit_try w (name s) img (s\<lparr>uploading := True\<rparr>, []) =
    (None,
     s\<lparr>uploading := True, name := [], image_uri := None, loadingSubmissions := True\<rparr>,
     [Fetch_call img,
      Upload_call (lit ''form_images'') path b,
      GetPublicUrl_call (lit ''form_images'') path,
      Insert_call (lit ''form_submissions'') (name s)
        (storage_getPublicUrl w (lit ''form_images'') path),
      Alert (lit ''Success'') (lit ''Your information has been saved!''),
      Select_call (lit ''form_submissions'') (lit ''*'') (lit ''created_at'') False])"
    unfolding handleSubmit_try_def Let_def k
    using assms(5-8,10,11) by (simp add: fetchSubmissions_issue_def)
  then show ?thesis
    using assms(1-4) by (simp add: handleSubmit_def)
qed

section \<open>Further example runs\<close>

text \<open>
  A draft whose image URI has no dot, and a store whose public URLs are empty.
\<close>

lemma dotless_key:
  "numberToString 1700000000000 @ lit ''.'' @
     last (split (of_char CHR ''.'') (lit ''content://media/external/images/42'')) =
   lit ''1700000000000.content://media/external/images/42''"
  by (simp add: numberToString_def lit_def digit_def)

lemma dotless_run:
  "handleSubmit example_services dotless_draft =
    (dotless_draft\<lparr>name := [], image_uri := None, uploading := False,
       loadingSubmissions := True\<rparr>,
     [Fetch_call (lit ''content://media/external/images/42''),
      Upload_call (lit ''form_images'')
        (lit ''1700000000000.content://media/external/images/42'') \<lparr>blob_size = 2000000\<rparr>,
      GetPublicUrl_call (lit ''form_images'')
        (lit ''1700000000000.content://media/external/images/42''),
      Insert_call (lit ''form_submissions'') (name dotless_draft)
        (storage_getPublicUrl example_services (lit ''form_images'')
           (lit ''1700000000000.content://media/external/images/42'')),
      Alert (lit ''Success'') (lit ''Your information has been saved!''),
      Select_call (lit ''form_submissions'') (lit ''*'') (lit ''created_at'') False])"
proof (rule handleSubmit_success_run)
  show "trim (name dotless_draft) \<noteq> []"
    by (simp add: dotless_draft_def example_trim)
  show "image_uri dotless_draft = Some (lit ''content://media/external/images/42'')"
    by (simp add: dotless_draft_def)
  show "lit ''content://media/external/images/42'' \<noteq> []" by simp
  show "isConnected dotless_draft" by (simp add: dotless_draft_def initial_def)
  show "fetch example_services (lit ''content://media/external/images/42'') =
      Resolved \<lparr>ok = True, status = 200, response_blob = Resolved \<lparr>blob_size = 2000000\<rparr>\<rparr>"
    by (simp add: example_services_def)
  show "ok \<lparr>ok = True, status = 200, response_blob = Resolved \<lparr>blob_size = 2000000\<rparr>\<rparr>"
    by simp
  show "response_blob \<lparr>ok = True, status = 200, response_blob = Resolved \<lparr>blob_size = 2000000\<rparr>\<rparr>
      = Resolved \<lparr>blob_size = 2000000\<rparr>"
    by simp
  show "blob_size \<lparr>blob_size = 2000000\<rparr> \<le> 5242880" by simp
  show "lit ''1700000000000.content://media/external/images/42'' =
      numberToString (date_now example_services) @ lit ''.'' @
        last (split (of_char CHR ''.'') (lit ''content://media/external/images/42''))"
    using dotless_key by (simp add: example_services_def)
  show "storage_upload example_services (lit ''form_images'')
      (lit ''1700000000000.content://media/external/images/42'') \<lparr>blob_size = 2000000\<rparr> =
      Resolved None"
    by (simp add: example_services_def)
  show "db_insert example_services (lit ''form_submissions'') (name dotless_draft)
      (storage_getPublicUrl example_services (lit ''form_images'')
         (lit ''1700000000000.content://media/external/images/42'')) = Resolved None"
    by (simp add: example_services_def)
qed


section \<open>Validation before any call\<close>

text \<open>
  C1. A draft whose name is empty or consists of whitespace only, or that has no selected
  image, or that is submitted while the device is not connected: \<open>handleSubmit\<close> leaves every
  state hook as it was, shows exactly one alert titled Error, with one of the three
  validation messages, and performs no other action; in particular neither the storage
  upload nor the database insert (nor any other call of the remote services) is invoked.
\<close>

theorem handleSubmit_invalid_draft_no_calls:
  assumes "(\<forall>c\<in>set (name s). isWhiteSpace c) \<or> image_uri s = None \<or> \<not> isConnected s"
  shows "fst (handleSubmit w s) = s \<and>
         snd (handleSubmit w s) \<in>
           {[Alert (lit ''Error'') (lit ''Please enter your name'')],
            [Alert (lit ''Error'') (lit ''Please select an image'')],
            [Alert (lit ''Error'') (lit ''No network connection. Please try again later.'')]} \<and>
         (\<forall>e\<in>set (snd (handleSubmit w s)).
            \<not> is_upload e \<and> \<not> is_insert e \<and> \<not> is_remote_call e)"
proof -
  from assms have "trim (name s) = [] \<or> image_uri s = None \<or> \<not> isConnected s"
    by (simp add: trim_Nil_iff)
  then show ?thesis
    by (auto simp: handleSubmit_def split: option.splits)
qed

theorem handleSubmit_invalid_draft_no_calls_witness:
  "list_all isWhiteSpace (name (example_draft (lit ''  ''))) \<and>
   fst (handleSubmit example_services (example_draft (lit ''  ''))) = example_draft (lit ''  '') \<and>
   snd (handleSubmit example_services (example_draft (lit ''  ''))) \<in>
           {[Alert (lit ''Error'') (lit ''Please enter your name'')],
            [Alert (lit ''Error'') (lit ''Please select an image'')],
            [Alert (lit ''Error'') (lit ''No network connection. Please try again later.'')]} \<and>
   list_all (\<lambda>e. \<not> is_upload e \<and> \<not> is_insert e \<and> \<not> is_remote_call e)
     (snd (handleSubmit example_services (example_draft (lit ''  ''))))"
proof -
  have ws: "list_all isWhiteSpace (name (example_draft (lit ''  '')))"
    by (simp add: example_draft_def lit_def isWhiteSpace_def)
  then have h: "(\<forall>c\<in>set (name (example_draft (lit ''  ''))). isWhiteSpace c) \<or>
      image_uri (example_draft (lit ''  '')) = None \<or>
      \<not> isConnected (example_draft (lit ''  ''))"
    by (simp add: list_all_iff)
  note r = handleSubmit_invalid_draft_no_calls [OF h, of example_services]
  from r have "list_all (\<lambda>e. \<not> is_upload e \<and> \<not> is_insert e \<and> \<not> is_remote_call e)
     (snd (handleSubmit example_services (example_draft (lit ''  ''))))"
    by (simp add: list_all_iff)
  with ws r show ?thesis by blast
qed

section \<open>The size limit\<close>

text \<open>
  C2. When the image has been fetched and its blob is larger than 5242880 bytes,
  \<open>handleSubmit\<close> shows the size-limit message and ends with the uploading flag cleared and
  every other hook unchanged. Reading the picked image is the only action before the
  message: no call of the remote services is made, in particular no storage upload and no
  database insert.
\<close>

theorem handleSubmit_size_limit:
  assumes "Fetch_call img \<in> set (snd (handleSubmit w s))"
    and "fetch w img = Resolved resp" and "ok resp"
    and "response_blob resp = Resolved b" and "5242880 < blob_size b"
  shows "handleSubmit w s =
           (s\<lparr>uploading := False\<rparr>,
            [Fetch_call img, Alert (lit ''Error'') (lit ''Image size must be less than 5MB'')]) \<and>
         (\<forall>e\<in>set (snd (handleSubmit w s)). \<not> is_remote_call e)"
  using assms
  by (auto simp: handleSubmit_def handleSubmit_try_def Let_def fetchSubmissions_issue_def
        handleSubmit_catch_def
      split: option.splits if_splits awaited.splits prod.splits)

theorem handleSubmit_size_limit_witness:
  "Fetch_call (lit ''file:///cache/photo.jpg'') \<in>
     set (snd (handleSubmit oversized_services (example_draft (lit ''Alice'')))) \<and>
   fetch oversized_services (lit ''file:///cache/photo.jpg'') =
     Resolved \<lparr>ok = True, status = 200, response_blob = Resolved \<lparr>blob_size = 5242881\<rparr>\<rparr> \<and>
   (5242880 :: nat) < 5242881 \<and>
   handleSubmit oversized_services (example_draft (lit ''Alice'')) =
     ((example_draft (lit ''Alice''))\<lparr>uploading := False\<rparr>,
      [Fetch_call (lit ''file:///cache/photo.jpg''),
       Alert (lit ''Error'') (lit ''Image size must be less than 5MB'')]) \<and>
   list_all (\<lambda>e. \<not> is_remote_call e)
     (snd (handleSubmit oversized_services (example_draft (lit ''Alice''))))"
proof -
  have f: "fetch oversized_services (lit ''file:///cache/photo.jpg'') =
     Resolved \<lparr>ok = True, status = 200, response_blob = Resolved \<lparr>blob_size = 5242881\<rparr>\<rparr>"
    by (simp add: oversized_services_def)
  have m: "Fetch_call (lit ''file:///cache/photo.jpg'') \<in>
     set (snd (handleSubmit oversized_services (example_draft (lit ''Alice''))))"
    by (simp add: handleSubmit_def handleSubmit_try_def Let_def example_trim f
          example_draft_def initial_def)
  note r = handleSubmit_size_limit [OF m f, of "\<lparr>blob_size = 5242881\<rparr>"]
  have "list_all (\<lambda>e. \<not> is_remote_call e)
     (snd (handleSubmit oversized_services (example_draft (lit ''Alice''))))"
    using r by (simp add: list_all_iff)
  with m f r show ?thesis by simp
qed

section \<open>A successful submission\<close>

text \<open>
  C3. When the storage upload that \<open>handleSubmit\<close> made has succeeded and the database insert
  that it made has succeeded, the draft is cleared: the name is the empty string and the image
  reference is none (the other hooks are as before, but that the uploading flag is cleared
  and the loading flag of the list is set). After the insert the success notice is shown and
  then the query of \<open>fetchSubmissions\<close> is issued, which is the last action. However that
  query settles, the name and the image reference stay cleared.
\<close>

theorem handleSubmit_success_clears_draft:
  assumes "handleSubmit w s = (s', t)"
    and "Upload_call bucket path b \<in> set t"
    and "storage_upload w bucket path b = Resolved None"
    and "Insert_call table nm url \<in> set t"
    and "db_insert w table nm url = Resolved None"
  shows "name s' = [] \<and> image_uri s' = None \<and>
         s' = s\<lparr>name := [], image_uri := None, uploading := False, loadingSubmissions := True\<rparr> \<and>
         t = [Fetch_call (the (image_uri s)), Upload_call bucket path b,
              GetPublicUrl_call bucket path, Insert_call table nm url,
              Alert (lit ''Success'') (lit ''Your information has been saved!''),
              Select_call (lit ''form_submissions'') (lit ''*'') (lit ''created_at'') False] \<and>
         (\<forall>reply. name (fst (fetchSubmissions_settle reply (s', t))) = [] \<and>
                  image_uri (fst (fetchSubmissions_settle reply (s', t))) = None)"
proof -
  from assms have
    "s' = s\<lparr>name := [], image_uri := None, uploading := False, loadingSubmissions := True\<rparr> \<and>
     t = [Fetch_call (the (image_uri s)), Upload_call bucket path b,
          GetPublicUrl_call bucket path, Insert_call table nm url,
          Alert (lit ''Success'') (lit ''Your information has been saved!''),
          Select_call (lit ''form_submissions'') (lit ''*'') (lit ''created_at'') False]"
    by (auto simp: handleSubmit_def handleSubmit_try_def Let_def fetchSubmissions_issue_def
          handleSubmit_catch_def
        split: option.splits if_splits awaited.splits prod.splits)
  then show ?thesis
    by (simp add: fetchSubmissions_settle_frame)
qed

theorem handleSubmit_success_clears_draft_witness:
  "Upload_call (lit ''form_images'') (lit ''1700000000000.jpg'') \<lparr>blob_size = 2000000\<rparr>
     \<in> set (snd (handleSubmit example_services (example_draft (lit ''Alice'')))) \<and>
   storage_upload example_services (lit ''form_images'') (lit ''1700000000000.jpg'')
     \<lparr>blob_size = 2000000\<rparr> = Resolved None \<and>
   Insert_call (lit ''form_submissions'') (lit ''Alice'')
       (example_url (lit ''form_images'') (lit ''1700000000000.jpg''))
     \<in> set (snd (handleSubmit example_services (example_draft (lit ''Alice'')))) \<and>
   db_insert example_services (lit ''form_submissions'') (lit ''Alice'')
       (example_url (lit ''form_images'') (lit ''1700000000000.jpg'')) = Resolved None \<and>
   name (fst (handleSubmit example_services (example_draft (lit ''Alice'')))) = [] \<and>
   image_uri (fst (handleSubmit example_services (example_draft (lit ''Alice'')))) = None \<and>
   Alert (lit ''Success'') (lit ''Your information has been saved!'')
     \<in> set (snd (handleSubmit example_services (example_draft (lit ''Alice'')))) \<and>
   last (snd (handleSubmit example_services (example_draft (lit ''Alice'')))) =
     Select_call (lit ''form_submissions'') (lit ''*'') (lit ''created_at'') False"
proof -
  have nm: "trim (lit ''Alice'') \<noteq> []"
    by (simp add: example_trim)
  have run: "handleSubmit example_services (example_draft (lit ''Alice'')) =
       (fst (handleSubmit example_services (example_draft (lit ''Alice''))),
        snd (handleSubmit example_services (example_draft (lit ''Alice''))))"
    by simp
  have up: "Upload_call (lit ''form_images'') (lit ''1700000000000.jpg'') \<lparr>blob_size = 2000000\<rparr>
     \<in> set (snd (handleSubmit example_services (example_draft (lit ''Alice''))))"
    by (simp add: example_run [OF nm])
  have up_ok: "storage_upload example_services (lit ''form_images'') (lit ''1700000000000.jpg'')
     \<lparr>blob_size = 2000000\<rparr> = Resolved None"
    by (simp add: example_services_def)
  have ins: "Insert_call (lit ''form_submissions'') (lit ''Alice'')
       (example_url (lit ''form_images'') (lit ''1700000000000.jpg''))
     \<in> set (snd (handleSubmit example_services (example_draft (lit ''Alice''))))"
    by (simp add: example_run [OF nm])
  have ins_ok: "db_insert example_services (lit ''form_submissions'') (lit ''Alice'')
       (example_url (lit ''form_images'') (lit ''1700000000000.jpg'')) = Resolved None"
    by (simp add: example_services_def)
  note r = handleSubmit_success_clears_draft [OF run up up_ok ins ins_ok]
  from r have "name (fst (handleSubmit example_services (example_draft (lit ''Alice'')))) = []"
    and "image_uri (fst (handleSubmit example_services (example_draft (lit ''Alice'')))) = None"
    by blast+
  moreover from r have "Alert (lit ''Success'') (lit ''Your information has been saved!'')
     \<in> set (snd (handleSubmit example_services (example_draft (lit ''Alice''))))"
    by (metis list.set_intros(1,2))
  moreover from r have "last (snd (handleSubmit example_services (example_draft (lit ''Alice'')))) =
     Select_call (lit ''form_submissions'') (lit ''*'') (lit ''created_at'') False"
    by (metis last.simps list.distinct(1))
  ultimately show ?thesis
    using up up_ok ins ins_ok by blast
qed

section \<open>A failed insert\<close>

text \<open>
  C4. When the storage upload has succeeded and the database insert returns an error (or
  its promise rejects), the draft is not reset: the name and the image reference are what
  they were at submit time, only the uploading flag is cleared, no success notice is shown,
  and the last action is an alert titled Error with the error's message (or the fallback
  text when the error has no message).
\<close>

theorem handleSubmit_insert_error_keeps_draft:
  assumes "handleSubmit w s = (s', t)"
    and "Upload_call bucket path b \<in> set t"
    and "storage_upload w bucket path b = Resolved None"
    and "Insert_call table nm url \<in> set t"
    and "db_insert w table nm url = Resolved (Some e) \<or> db_insert w table nm url = Rejected e"
  shows "name s' = name s \<and> image_uri s' = image_uri s \<and> s' = s\<lparr>uploading := False\<rparr> \<and>
         t = [Fetch_call (the (image_uri s)), Upload_call bucket path b,
              GetPublicUrl_call bucket path, Insert_call table nm url,
              Console_error (lit ''Error submitting form:'') e,
              Alert (lit ''Error'')
                (message_or e (lit ''Something went wrong while submitting your form''))]"
  using assms
  by (auto simp: handleSubmit_def handleSubmit_try_def Let_def fetchSubmissions_issue_def
          handleSubmit_catch_def
        split: option.splits if_splits awaited.splits prod.splits)

theorem handleSubmit_insert_error_keeps_draft_witness:
  "Upload_call (lit ''form_images'') (lit ''1700000000000.jpg'') \<lparr>blob_size = 2000000\<rparr>
     \<in> set (snd (handleSubmit refusing_services (example_draft (lit ''Alice'')))) \<and>
   storage_upload refusing_services (lit ''form_images'') (lit ''1700000000000.jpg'')
     \<lparr>blob_size = 2000000\<rparr> = Resolved None \<and>
   Insert_call (lit ''form_submissions'') (lit ''Alice'')
       (example_url (lit ''form_images'') (lit ''1700000000000.jpg''))
     \<in> set (snd (handleSubmit refusing_services (example_draft (lit ''Alice'')))) \<and>
   db_insert refusing_services (lit ''form_submissions'') (lit ''Alice'')
       (example_url (lit ''form_images'') (lit ''1700000000000.jpg'')) =
     Resolved (Some example_error) \<and>
   name (fst (handleSubmit refusing_services (example_draft (lit ''Alice'')))) = lit ''Alice'' \<and>
   image_uri (fst (handleSubmit refusing_services (example_draft (lit ''Alice'')))) =
     Some (lit ''file:///cache/photo.jpg'') \<and>
   last (snd (handleSubmit refusing_services (example_draft (lit ''Alice'')))) =
     Alert (lit ''Error'') (lit ''permission denied'')"
proof -
  have nm: "trim (lit ''Alice'') \<noteq> []"
    by (simp add: example_trim)
  have run: "handleSubmit refusing_services (example_draft (lit ''Alice'')) =
       (fst (handleSubmit refusing_services (example_draft (lit ''Alice''))),
        snd (handleSubmit refusing_services (example_draft (lit ''Alice''))))"
    by simp
  have up: "Upload_call (lit ''form_images'') (lit ''1700000000000.jpg'') \<lparr>blob_size = 2000000\<rparr>
     \<in> set (snd (handleSubmit refusing_services (example_draft (lit ''Alice''))))"
    by (simp add: refused_run [OF nm])
  have up_ok: "storage_upload refusing_services (lit ''form_images'') (lit ''1700000000000.jpg'')
     \<lparr>blob_size = 2000000\<rparr> = Resolved None"
    by (simp add: refusing_services_def example_services_def)
  have ins: "Insert_call (lit ''form_submissions'') (lit ''Alice'')
       (example_url (lit ''form_images'') (lit ''1700000000000.jpg''))
     \<in> set (snd (handleSubmit refusing_services (example_draft (lit ''Alice''))))"
    by (simp add: refused_run [OF nm])
  have ins_err: "db_insert refusing_services (lit ''form_submissions'') (lit ''Alice'')
       (example_url (lit ''form_images'') (lit ''1700000000000.jpg'')) =
     Resolved (Some example_error)"
    by (simp add: refusing_services_def)
  note r = handleSubmit_insert_error_keeps_draft [OF run up up_ok ins disjI1 [OF ins_err]]
  from r have "name (fst (handleSubmit refusing_services (example_draft (lit ''Alice'')))) =
      lit ''Alice''"
    and "image_uri (fst (handleSubmit refusing_services (example_draft (lit ''Alice'')))) =
      Some (lit ''file:///cache/photo.jpg'')"
    by (simp_all add: example_draft_def)
  moreover from r have "last (snd (handleSubmit refusing_services (example_draft (lit ''Alice'')))) =
     Alert (lit ''Error'') (lit ''permission denied'')"
    by (simp add: message_or_def example_error_def)
  ultimately show ?thesis
    using up up_ok ins ins_err by blast
qed

section \<open>The list of submissions\<close>

text \<open>
  C5. When the query of \<open>fetchSubmissions\<close> returns an error (or its promise rejects), the list
  of submissions is what it was before the call, the loading flag is cleared, and the error
  is logged and shown in an alert titled Error.
\<close>

theorem fetchSubmissions_error_keeps_list:
  assumes "db_select w (lit ''form_submissions'') (lit ''*'') (lit ''created_at'') False =
             Resolved (d, Some e)
         \<or> db_select w (lit ''form_submissions'') (lit ''*'') (lit ''created_at'') False =
             Rejected e"
  shows "submissions (fst (fetchSubmissions w s)) = submissions s \<and>
         fst (fetchSubmissions w s) = s\<lparr>loadingSubmissions := False\<rparr> \<and>
         snd (fetchSubmissions w s) =
           [Select_call (lit ''form_submissions'') (lit ''*'') (lit ''created_at'') False,
            Console_error (lit ''Error fetching submissions:'') e,
            Alert (lit ''Error'') (message_or e (lit ''Failed to load submissions''))]"
  using assms
  by (auto simp: fetchSubmissions_def fetchSubmissions_settle_def fetchSubmissions_issue_def
        fetchSubmissions_catch_def split: option.splits)

theorem fetchSubmissions_error_keeps_list_witness:
  "db_select refusing_services (lit ''form_submissions'') (lit ''*'') (lit ''created_at'') False =
     Resolved (None, Some example_error) \<and>
   submissions (fst (fetchSubmissions refusing_services (initial\<lparr>submissions := [example_row]\<rparr>))) =
     [example_row] \<and>
   snd (fetchSubmissions refusing_services (initial\<lparr>submissions := [example_row]\<rparr>)) =
     [Select_call (lit ''form_submissions'') (lit ''*'') (lit ''created_at'') False,
      Console_error (lit ''Error fetching submissions:'') example_error,
      Alert (lit ''Error'') (lit ''permission denied'')]"
proof -
  have sel: "db_select refusing_services (lit ''form_submissions'') (lit ''*'') (lit ''created_at'')
      False = Resolved (None, Some example_error)"
    by (simp add: refusing_services_def)
  note r = fetchSubmissions_error_keeps_list
    [OF disjI1 [OF sel], of "initial\<lparr>submissions := [example_row]\<rparr>"]
  have "message_or example_error (lit ''Failed to load submissions'') = lit ''permission denied''"
    by (simp add: message_or_def example_error_def)
  with sel r show ?thesis by simp
qed

text \<open>
  C6. When the query of \<open>fetchSubmissions\<close> succeeds with the rows \<open>R\<close>, the list of
  submissions becomes exactly \<open>R\<close>, whatever it was before. The only action is one query
  of all columns of the table, ordered by \<^verbatim>\<open>created_at\<close> with ascending false.
\<close>

theorem fetchSubmissions_success_replaces_list:
  assumes "db_select w (lit ''form_submissions'') (lit ''*'') (lit ''created_at'') False =
             Resolved (Some R, None)"
  shows "fetchSubmissions w s =
           (s\<lparr>submissions := R, loadingSubmissions := False\<rparr>,
            [Select_call (lit ''form_submissions'') (lit ''*'') (lit ''created_at'') False])"
  using assms
  by (simp add: fetchSubmissions_def fetchSubmissions_settle_def fetchSubmissions_issue_def)

theorem fetchSubmissions_success_replaces_list_witness:
  "db_select example_services (lit ''form_submissions'') (lit ''*'') (lit ''created_at'') False =
     Resolved (Some [example_row], None) \<and>
   fetchSubmissions example_services
       (initial\<lparr>submissions := [example_row, example_row]\<rparr>) =
     (initial\<lparr>submissions := [example_row], loadingSubmissions := False\<rparr>,
      [Select_call (lit ''form_submissions'') (lit ''*'') (lit ''created_at'') False])"
proof -
  have sel: "db_select example_services (lit ''form_submissions'') (lit ''*'') (lit ''created_at'')
      False = Resolved (Some [example_row], None)"
    by (simp add: example_services_def)
  show ?thesis
    using sel fetchSubmissions_success_replaces_list
      [OF sel, of "initial\<lparr>submissions := [example_row, example_row]\<rparr>"]
    by simp
qed

section \<open>The storage key\<close>

text \<open>
  C7. For a selected image URI that contains a dot, the key under which \<open>handleSubmit\<close>
  uploads the image is the clock's milliseconds in decimal, a dot, and the extension of the
  URI, which is what follows its last dot. Every retrieval of the public URL uses the bucket
  and the key of the upload, and a successful upload is followed by that retrieval. In the
  example the key is \<^verbatim>\<open>1700000000000.jpg\<close>.
\<close>

theorem handleSubmit_storage_key:
  assumes "handleSubmit w s = (s', t)" and "Upload_call bucket path b \<in> set t"
    and "image_uri s = Some img" and "of_char CHR ''.'' \<in> set img"
  shows "\<exists>pre ext. img = pre @ of_char CHR ''.'' # ext \<and> of_char CHR ''.'' \<notin> set ext \<and>
           path = numberToString (date_now w) @ lit ''.'' @ ext \<and>
           (\<forall>bucket' path'. GetPublicUrl_call bucket' path' \<in> set t \<longrightarrow>
              bucket' = bucket \<and> path' = path) \<and>
           (storage_upload w bucket path b = Resolved None \<longrightarrow>
              GetPublicUrl_call bucket path \<in> set t)"
proof -
  from handleSubmit_Upload_call [OF assms(1,2)] assms(3) have
    path: "path = numberToString (date_now w) @ lit ''.'' @ last (split (of_char CHR ''.'') img)" and
    same: "\<forall>bucket' path'. GetPublicUrl_call bucket' path' \<in> set t \<longrightarrow>
              bucket' = bucket \<and> path' = path" and
    url: "storage_upload w bucket path b = Resolved None \<longrightarrow>
              GetPublicUrl_call bucket path \<in> set t"
    by auto
  from last_split [of "of_char CHR ''.''" img] assms(4)
  obtain pre ext where "img = pre @ of_char CHR ''.'' # ext" and "of_char CHR ''.'' \<notin> set ext"
    and "last (split (of_char CHR ''.'') img) = ext"
    by blast
  with path same url show ?thesis by blast
qed

theorem handleSubmit_storage_key_witness:
  "Upload_call (lit ''form_images'') (lit ''1700000000000.jpg'') \<lparr>blob_size = 2000000\<rparr>
     \<in> set (snd (handleSubmit example_services (example_draft (lit ''Alice'')))) \<and>
   image_uri (example_draft (lit ''Alice'')) = Some (lit ''file:///cache/photo.jpg'') \<and>
   of_char CHR ''.'' \<in> set (lit ''file:///cache/photo.jpg'') \<and>
   (\<exists>pre ext. lit ''file:///cache/photo.jpg'' = pre @ of_char CHR ''.'' # ext \<and>
      of_char CHR ''.'' \<notin> set ext \<and>
      lit ''1700000000000.jpg'' = numberToString (date_now example_services) @ lit ''.'' @ ext) \<and>
   GetPublicUrl_call (lit ''form_images'') (lit ''1700000000000.jpg'')
     \<in> set (snd (handleSubmit example_services (example_draft (lit ''Alice''))))"
proof -
  have nm: "trim (lit ''Alice'') \<noteq> []"
    by (simp add: example_trim)
  have run: "handleSubmit example_services (example_draft (lit ''Alice'')) =
       (fst (handleSubmit example_services (example_draft (lit ''Alice''))),
        snd (handleSubmit example_services (example_draft (lit ''Alice''))))"
    by simp
  have up: "Upload_call (lit ''form_images'') (lit ''1700000000000.jpg'') \<lparr>blob_size = 2000000\<rparr>
     \<in> set (snd (handleSubmit example_services (example_draft (lit ''Alice''))))"
    by (simp add: example_run [OF nm])
  have img: "image_uri (example_draft (lit ''Alice'')) = Some (lit ''file:///cache/photo.jpg'')"
    by (simp add: example_draft_def)
  have dot: "of_char CHR ''.'' \<in> set (lit ''file:///cache/photo.jpg'')"
    by (simp add: lit_def)
  have up_ok: "storage_upload example_services (lit ''form_images'') (lit ''1700000000000.jpg'')
     \<lparr>blob_size = 2000000\<rparr> = Resolved None"
    by (simp add: example_services_def)
  note r = handleSubmit_storage_key [OF run up img dot]
  from r up_ok have "GetPublicUrl_call (lit ''form_images'') (lit ''1700000000000.jpg'')
     \<in> set (snd (handleSubmit example_services (example_draft (lit ''Alice''))))"
    by blast
  moreover from r have "\<exists>pre ext. lit ''file:///cache/photo.jpg'' = pre @ of_char CHR ''.'' # ext \<and>
      of_char CHR ''.'' \<notin> set ext \<and>
      lit ''1700000000000.jpg'' = numberToString (date_now example_services) @ lit ''.'' @ ext"
    by blast
  ultimately show ?thesis
    using up img dot by blast
qed

text \<open>
  C7 does not hold of every selected URI. The URI
  \<^verbatim>\<open>content://media/external/images/42\<close> has no dot, so nothing follows a last dot
  of it; the key of the upload is then the clock's milliseconds, a dot, and the whole URI.
\<close>

theorem handleSubmit_storage_key_counterexample:
  "image_uri dotless_draft = Some (lit ''content://media/external/images/42'') \<and>
   of_char CHR ''.'' \<notin> set (lit ''content://media/external/images/42'') \<and>
   Upload_call (lit ''form_images'')
       (lit ''1700000000000.content://media/external/images/42'') \<lparr>blob_size = 2000000\<rparr>
     \<in> set (snd (handleSubmit example_services dotless_draft)) \<and>
   lit ''1700000000000.content://media/external/images/42'' =
     numberToString (date_now example_services) @ lit ''.'' @
       lit ''content://media/external/images/42''"
proof -
  have "of_char CHR ''.'' \<notin> set (lit ''content://media/external/images/42'')"
    by (simp add: lit_def)
  moreover have "lit ''1700000000000.content://media/external/images/42'' =
     numberToString (date_now example_services) @ lit ''.'' @
       lit ''content://media/external/images/42''"
    by (simp add: example_services_def numberToString_def lit_def digit_def)
  ultimately show ?thesis
    by (simp add: dotless_run) (simp add: dotless_draft_def)
qed

section \<open>The inserted record\<close>




section \<open>Picking an image\<close>

text \<open>
  C9. When the picker's result is cancelled or has no assets, \<open>pickImage\<close> leaves the state,
  and so the image reference of the draft, unchanged. The image reference changes only for
  a result that is not cancelled and has a first asset, and then it becomes the URI of that
  asset.
\<close>

theorem pickImage_cancel_keeps_image:
  "(reply = Resolved result \<and>
      (canceled result \<or> assets result = None \<or> assets result = Some [])
      \<longrightarrow> snd (pickImage reply s) = s) \<and>
   (image_uri (snd (pickImage reply s)) \<noteq> image_uri s \<longrightarrow>
      (\<exists>r a rest. reply = Resolved r \<and> \<not> canceled r \<and> assets r = Some (a # rest) \<and>
         pickImage reply s = (None, s\<lparr>image_uri := Some (uri a)\<rparr>)))"
  by (auto simp: pickImage_def split: awaited.splits list.splits if_splits)

theorem pickImage_cancel_keeps_image_witness:
  "canceled \<lparr>canceled = True, assets = None\<rparr> \<and>
   snd (pickImage (Resolved \<lparr>canceled = True, assets = None\<rparr>) (example_draft (lit ''Alice''))) =
     example_draft (lit ''Alice'') \<and>
   image_uri (snd (pickImage (Resolved \<lparr>canceled = False, assets = Some [example_asset]\<rparr>)
      (example_draft (lit ''Alice'')))) = Some (lit ''file:///cache/other.png'')"
proof -
  have "snd (pickImage (Resolved \<lparr>canceled = True, assets = None\<rparr>)
           (example_draft (lit ''Alice''))) = example_draft (lit ''Alice'')"
    using pickImage_cancel_keeps_image
      [of "Resolved \<lparr>canceled = True, assets = None\<rparr>" "\<lparr>canceled = True, assets = None\<rparr>"
          "example_draft (lit ''Alice'')"]
    by simp
  moreover have "image_uri (snd (pickImage (Resolved \<lparr>canceled = False, assets = Some [example_asset]\<rparr>)
      (example_draft (lit ''Alice'')))) = Some (lit ''file:///cache/other.png'')"
    by (simp add: pickImage_def example_asset_def)
  ultimately show ?thesis by simp
qed

section \<open>The name as typed\<close>

text \<open>
  C10. The name in the inserted record is the name hook as it is, not its trimmed form:
  the validation only tests that the trimmed name is non-empty. A name with leading or
  trailing whitespace is inserted with that whitespace.
\<close>

theorem handleSubmit_inserts_raw_name:
  assumes "handleSubmit w s = (s', t)" and "Insert_call table nm url \<in> set t"
  shows "nm = name s \<and> trim (name s) \<noteq> [] \<and> (trim (name s) \<noteq> name s \<longrightarrow> nm \<noteq> trim (name s))"
  using handleSubmit_Insert_call [OF assms]
  by auto

theorem handleSubmit_inserts_raw_name_witness:
  "Insert_call (lit ''form_submissions'') padded_name
       (example_url (lit ''form_images'') (lit ''1700000000000.jpg''))
     \<in> set (snd (handleSubmit example_services (example_draft padded_name))) \<and>
   padded_name = name (example_draft padded_name) \<and>
   trim padded_name = lit ''Alice'' \<and> padded_name \<noteq> trim padded_name"
proof -
  have tr: "trim padded_name = lit ''Alice''"
    by (simp add: padded_name_def example_trim)
  then have nm: "trim padded_name \<noteq> []"
    by simp
  have run: "handleSubmit example_services (example_draft padded_name) =
       (fst (handleSubmit example_services (example_draft padded_name)),
        snd (handleSubmit example_services (example_draft padded_name)))"
    by simp
  have ins: "Insert_call (lit ''form_submissions'') padded_name
       (example_url (lit ''form_images'') (lit ''1700000000000.jpg''))
     \<in> set (snd (handleSubmit example_services (example_draft padded_name)))"
    by (simp add: example_run [OF nm])
  have ne: "trim (name (example_draft padded_name)) \<noteq> name (example_draft padded_name)"
    by (simp add: example_draft_def tr) (simp add: padded_name_def)
  note r = handleSubmit_inserts_raw_name [OF run ins]
  from r ne have "padded_name \<noteq> trim (name (example_draft padded_name))"
    by blast
  then have "padded_name \<noteq> trim padded_name"
    by (simp add: example_draft_def)
  with r ins tr show ?thesis by blast
qed

end
